theory Spec2Isabelle
  imports Main "HOL-Library.Sublist"
begin

section \<open>Errors and outcomes\<close>

text \<open>
  The error values of the connector. The first six are the package-level variables of
  event.go; \<open>ErrCouldNotFindNatGateway\<close> is the error built in \<open>natGatewayByID\<close>;
  the remaining three carry the message of an error produced by a library (the cloud SDK,
  the JSON decoder, the JSON encoder).
\<close>

datatype error =
    ErrDatacenterIDInvalid
  | ErrDatacenterRegionInvalid
  | ErrDatacenterCredentialsInvalid
  | ErrNetworkIDInvalid
  | ErrRoutedNetworksEmpty
  | ErrNatGatewayIDInvalid
  | ErrCouldNotFindNatGateway
  | ProviderError string
  | DecodeError string
  | MarshalError string

text \<open>The text of an error, as \<open>err.Error()\<close> returns it.\<close>

fun error_text :: "error \<Rightarrow> string" where
  "error_text ErrDatacenterIDInvalid = ''Datacenter VPC ID invalid''"
| "error_text ErrDatacenterRegionInvalid = ''Datacenter Region invalid''"
| "error_text ErrDatacenterCredentialsInvalid = ''Datacenter credentials invalid''"
| "error_text ErrNetworkIDInvalid = ''Network id invalid''"
| "error_text ErrRoutedNetworksEmpty = ''Routed networks are empty''"
| "error_text ErrNatGatewayIDInvalid = ''Nat Gateway aws id invalid''"
| "error_text ErrCouldNotFindNatGateway = ''Could not find nat gateway''"
| "error_text (ProviderError m) = m"
| "error_text (DecodeError m) = m"
| "error_text (MarshalError m) = m"

text \<open>
  A call either returns a value or panics (a nil pointer dereference, an index out of
  range, \<open>log.Panic\<close>). Nothing in the connector recovers from a panic.
\<close>

datatype 'a outcome = Val 'a | Panic

section \<open>The event\<close>

record event =
  UUID :: string
  BatchID :: string
  ProviderType :: string
  VPCID :: string
  DatacenterRegion :: string
  DatacenterAccessKey :: string
  DatacenterAccessToken :: string
  NetworkAWSID :: string
  PublicNetwork :: string
  PublicNetworkAWSID :: string
  RoutedNetworks :: "string list"
  RoutedNetworkAWSIDs :: "string list"
  NatGatewayAWSID :: string
  NatGatewayAllocationID :: string
  NatGatewayAllocationIP :: string
  InternetGatewayID :: string
  ErrorMessage :: string
  action :: string

text \<open>The zero value of the struct, which \<open>var n Event\<close> declares.\<close>

definition Event_zero :: event where
  "Event_zero = \<lparr>UUID = [], BatchID = [], ProviderType = [], VPCID = [],
     DatacenterRegion = [], DatacenterAccessKey = [], DatacenterAccessToken = [],
     NetworkAWSID = [], PublicNetwork = [], PublicNetworkAWSID = [],
     RoutedNetworks = [], RoutedNetworkAWSIDs = [], NatGatewayAWSID = [],
     NatGatewayAllocationID = [], NatGatewayAllocationIP = [], InternetGatewayID = [],
     ErrorMessage = [], action = []\<rparr>"

text \<open>\<open>Event.Validate\<close>: \<open>None\<close> is the nil error.\<close>

definition Validate :: "event \<Rightarrow> string \<Rightarrow> error option" where
  "Validate ev subject =
     (if VPCID ev = [] then Some ErrDatacenterIDInvalid
      else if DatacenterRegion ev = [] then Some ErrDatacenterRegionInvalid
      else if DatacenterAccessKey ev = [] \<or> DatacenterAccessToken ev = []
        then Some ErrDatacenterCredentialsInvalid
      else if subject = ''nat.delete.aws''
        then (if NatGatewayAWSID ev = [] then Some ErrNatGatewayIDInvalid else None)
      else if PublicNetworkAWSID ev = [] then Some ErrNetworkIDInvalid
      else if length (RoutedNetworkAWSIDs ev) < 1 then Some ErrRoutedNetworksEmpty
      else None)"

section \<open>The cloud SDK as the connector sees it\<close>

text \<open>
  The structures of the SDK that the source reads. A field that the source dereferences
  (\<open>*x.F\<close>) or passes on as a pointer is an option: \<open>None\<close> is the nil pointer.
  The field of a route that holds its NAT gateway is named \<open>RouteNatGatewayId\<close> here,
  since a record field name is global.
\<close>

record address =
  AllocationId :: "string option"
  PublicIp :: "string option"

record internet_gateway =
  InternetGatewayId :: "string option"

record route =
  DestinationCidrBlock :: "string option"
  RouteNatGatewayId :: "string option"

record route_table =
  RouteTableId :: "string option"
  Routes :: "route list"

record nat_gateway =
  NatGatewayId :: "string option"
  State :: "string option"

definition NatGatewayStateDeleted :: string where
  "NatGatewayStateDeleted = ''deleted''"

text \<open>
  The client \<open>*ec2.EC2\<close>: one field for each method the source calls, over a state
  \<open>'s\<close> of the cloud account that every call may change. A call returns
  \<open>Inl err\<close> for a non-nil error and \<open>Inr resp\<close> otherwise. A described list holds
  pointers (\<open>[]*ec2.RouteTable\<close>), and the structure inside a create response is a
  pointer too, hence the options.
\<close>

record 's ec2 =
  AllocateAddress :: "'s \<Rightarrow> (error + address) \<times> 's"
  DescribeInternetGateways :: "string \<Rightarrow> 's \<Rightarrow> (error + internet_gateway option list) \<times> 's"
  CreateInternetGateway :: "'s \<Rightarrow> (error + internet_gateway option) \<times> 's"
  AttachInternetGateway :: "string option \<Rightarrow> string \<Rightarrow> 's \<Rightarrow> (error + unit) \<times> 's"
  DescribeRouteTables :: "string \<Rightarrow> 's \<Rightarrow> (error + route_table option list) \<times> 's"
  CreateRouteTable :: "string \<Rightarrow> 's \<Rightarrow> (error + route_table option) \<times> 's"
  AssociateRouteTable :: "string option \<Rightarrow> string \<Rightarrow> 's \<Rightarrow> (error + unit) \<times> 's"
  CreateRoute :: "string option \<Rightarrow> string \<Rightarrow> string \<Rightarrow> 's \<Rightarrow> (error + unit) \<times> 's"
  CreateNatGateway :: "string \<Rightarrow> string \<Rightarrow> 's \<Rightarrow> (error + nat_gateway option) \<times> 's"
  WaitUntilNatGatewayAvailable :: "string option \<Rightarrow> 's \<Rightarrow> error option \<times> 's"
  DeleteNatGateway :: "string \<Rightarrow> 's \<Rightarrow> (error + unit) \<times> 's"
  DescribeNatGateways :: "string \<Rightarrow> 's \<Rightarrow> (error + nat_gateway option list) \<times> 's"

text \<open>
  What the connector does to the outside, in the order it does it: the remote calls with
  their arguments, and the sleeps of the delete loop (in seconds).
\<close>

datatype call =
    CAllocateAddress
  | CDescribeInternetGateways string
  | CCreateInternetGateway
  | CAttachInternetGateway "string option" string
  | CDescribeRouteTables string
  | CCreateRouteTable string
  | CAssociateRouteTable "string option" string
  | CCreateRoute "string option" string string
  | CCreateNatGateway string string
  | CWaitUntilNatGatewayAvailable "string option"
  | CDeleteNatGateway string
  | CDescribeNatGateways string
  | CSleep nat

text \<open>
  The world a handler runs in: the cloud account, the calls made so far, and the messages
  published on the bus so far (subject and payload).
\<close>

record 's world =
  cloud :: 's
  calls :: "call list"
  published :: "(string \<times> string) list"

definition invoke :: "call \<Rightarrow> ('s \<Rightarrow> 'r \<times> 's) \<Rightarrow> 's world \<Rightarrow> 'r \<times> 's world" where
  "invoke c f w = (case f (cloud w) of (r, s) \<Rightarrow> (r, w\<lparr>cloud := s, calls := calls w @ [c]\<rparr>))"

definition time_Sleep :: "nat \<Rightarrow> 's world \<Rightarrow> 's world" where
  "time_Sleep n w = w\<lparr>calls := calls w @ [CSleep n]\<rparr>"

definition nc_Publish :: "string \<Rightarrow> string \<Rightarrow> 's world \<Rightarrow> 's world" where
  "nc_Publish subject data w = w\<lparr>published := published w @ [(subject, data)]\<rparr>"

text \<open>
  What the handler takes from its libraries: \<open>ec2_New region key token\<close> is the client
  that \<open>ec2.New\<close> builds for a region and static credentials; \<open>json_Unmarshal data ev\<close>
  decodes a payload into an event; \<open>json_Marshal ev\<close> encodes one.
\<close>

record 's deps =
  ec2_New :: "string \<Rightarrow> string \<Rightarrow> string \<Rightarrow> 's ec2"
  json_Unmarshal :: "string \<Rightarrow> event \<Rightarrow> error + event"
  json_Marshal :: "event \<Rightarrow> error + string"

definition client :: "'s deps \<Rightarrow> event \<Rightarrow> 's ec2" where
  "client d ev = ec2_New d (DatacenterRegion ev) (DatacenterAccessKey ev) (DatacenterAccessToken ev)"

section \<open>main.go: lookups\<close>

text \<open>
  event.go holds a second copy of the lookups, of the resolve-or-create functions and of
  the three workflows as methods of \<open>Event\<close> (\<open>Event.Create\<close>, \<open>Event.Update\<close>,
  \<open>Event.Delete\<close> and their helpers). Statement for statement they are the functions
  of main.go, with the event as receiver, so one model serves both; the handler in main.go
  calls the functions of main.go.
\<close>

text \<open>
  A lookup returns a pointer and an error: \<open>Inl err\<close> is \<open>(nil, err)\<close>,
  \<open>Inr None\<close> is \<open>(nil, nil)\<close>, \<open>Inr (Some x)\<close> is \<open>(x, nil)\<close>.
\<close>

definition internetGatewayByVPCID ::
  "'s ec2 \<Rightarrow> string \<Rightarrow> 's world \<Rightarrow> (error + internet_gateway option) \<times> 's world" where
  "internetGatewayByVPCID svc vpc w =
     (case invoke (CDescribeInternetGateways vpc) (DescribeInternetGateways svc vpc) w of
        (Inl err, w1) \<Rightarrow> (Inl err, w1)
      | (Inr igs, w1) \<Rightarrow>
          (case igs of [] \<Rightarrow> (Inr None, w1) | ig # _ \<Rightarrow> (Inr ig, w1)))"

definition routingTableBySubnetID ::
  "'s ec2 \<Rightarrow> string \<Rightarrow> 's world \<Rightarrow> (error + route_table option) \<times> 's world" where
  "routingTableBySubnetID svc subnet w =
     (case invoke (CDescribeRouteTables subnet) (DescribeRouteTables svc subnet) w of
        (Inl err, w1) \<Rightarrow> (Inl err, w1)
      | (Inr rts, w1) \<Rightarrow>
          (case rts of [] \<Rightarrow> (Inr None, w1) | rt # _ \<Rightarrow> (Inr rt, w1)))"

definition natGatewayByID ::
  "'s ec2 \<Rightarrow> string \<Rightarrow> 's world \<Rightarrow> (error + nat_gateway option) \<times> 's world" where
  "natGatewayByID svc ident w =
     (case invoke (CDescribeNatGateways ident) (DescribeNatGateways svc ident) w of
        (Inl err, w1) \<Rightarrow> (Inl err, w1)
      | (Inr gws, w1) \<Rightarrow>
          (if length gws \<noteq> 1 then (Inl ErrCouldNotFindNatGateway, w1)
           else (Inr (gws ! 0), w1)))"

text \<open>
  \<open>isNatGatewayDeleted\<close> drops the error of the lookup and dereferences the gateway and
  its state: either nil pointer panics.
\<close>

definition isNatGatewayDeleted :: "'s ec2 \<Rightarrow> string \<Rightarrow> 's world \<Rightarrow> bool outcome \<times> 's world" where
  "isNatGatewayDeleted svc ident w =
     (case natGatewayByID svc ident w of
        (r, w1) \<Rightarrow>
          (case (case r of Inl _ \<Rightarrow> None | Inr gw \<Rightarrow> gw) of
             None \<Rightarrow> (Panic, w1)
           | Some gw \<Rightarrow>
               (case State gw of
                  None \<Rightarrow> (Panic, w1)
                | Some st \<Rightarrow> (Val (st = NatGatewayStateDeleted), w1))))"

text \<open>
  \<open>routeTableIsConfigured\<close>: the loop over the routes returns at the first match; the
  second dereference is reached only when the first comparison holds.
\<close>

fun routeTableIsConfigured_loop :: "route list \<Rightarrow> string \<Rightarrow> bool outcome" where
  "routeTableIsConfigured_loop [] gwID = Val False"
| "routeTableIsConfigured_loop (r # rs) gwID =
     (case DestinationCidrBlock r of
        None \<Rightarrow> Panic
      | Some dst \<Rightarrow>
          (if dst = ''0.0.0.0/0'' then
             (case RouteNatGatewayId r of
                None \<Rightarrow> Panic
              | Some g \<Rightarrow> (if g = gwID then Val True else routeTableIsConfigured_loop rs gwID))
           else routeTableIsConfigured_loop rs gwID))"

definition routeTableIsConfigured :: "route_table \<Rightarrow> string \<Rightarrow> bool outcome" where
  "routeTableIsConfigured rt gwID = routeTableIsConfigured_loop (Routes rt) gwID"

section \<open>main.go: resolve or create\<close>

text \<open>
  \<open>createInternetGateway\<close> returns a string and an error; the string is empty
  whenever the error is not nil.
\<close>

definition createInternetGateway ::
  "'s ec2 \<Rightarrow> string \<Rightarrow> 's world \<Rightarrow> (string \<times> error option) outcome \<times> 's world" where
  "createInternetGateway svc vpc w =
     (case internetGatewayByVPCID svc vpc w of
        (Inl err, w1) \<Rightarrow> (Val ([], Some err), w1)
      | (Inr (Some ig), w1) \<Rightarrow>
          (case InternetGatewayId ig of
             None \<Rightarrow> (Panic, w1)
           | Some i \<Rightarrow> (Val (i, None), w1))
      | (Inr None, w1) \<Rightarrow>
          (case invoke CCreateInternetGateway (CreateInternetGateway svc) w1 of
             (Inl err, w2) \<Rightarrow> (Val ([], Some err), w2)
           | (Inr None, w2) \<Rightarrow> (Panic, w2)
           | (Inr (Some ig), w2) \<Rightarrow>
               (case invoke (CAttachInternetGateway (InternetGatewayId ig) vpc)
                       (AttachInternetGateway svc (InternetGatewayId ig) vpc) w2 of
                  (Inl err, w3) \<Rightarrow> (Val ([], Some err), w3)
                | (Inr _, w3) \<Rightarrow>
                    (case InternetGatewayId ig of
                       None \<Rightarrow> (Panic, w3)
                     | Some i \<Rightarrow> (Val (i, None), w3)))))"

definition createRouteTable ::
  "'s ec2 \<Rightarrow> string \<Rightarrow> string \<Rightarrow> 's world \<Rightarrow> (error + route_table) outcome \<times> 's world" where
  "createRouteTable svc vpc subnet w =
     (case routingTableBySubnetID svc subnet w of
        (Inl err, w1) \<Rightarrow> (Val (Inl err), w1)
      | (Inr (Some rt), w1) \<Rightarrow> (Val (Inr rt), w1)
      | (Inr None, w1) \<Rightarrow>
          (case invoke (CCreateRouteTable vpc) (CreateRouteTable svc vpc) w1 of
             (Inl err, w2) \<Rightarrow> (Val (Inl err), w2)
           | (Inr None, w2) \<Rightarrow> (Panic, w2)
           | (Inr (Some rt), w2) \<Rightarrow>
               (case invoke (CAssociateRouteTable (RouteTableId rt) subnet)
                       (AssociateRouteTable svc (RouteTableId rt) subnet) w2 of
                  (Inl err, w3) \<Rightarrow> (Val (Inl err), w3)
                | (Inr _, w3) \<Rightarrow> (Val (Inr rt), w3))))"

definition createNatGatewayRoutes ::
  "'s ec2 \<Rightarrow> route_table \<Rightarrow> string \<Rightarrow> 's world \<Rightarrow> error option \<times> 's world" where
  "createNatGatewayRoutes svc rt gwID w =
     (case invoke (CCreateRoute (RouteTableId rt) ''0.0.0.0/0'' gwID)
             (CreateRoute svc (RouteTableId rt) ''0.0.0.0/0'' gwID) w of
        (Inl err, w1) \<Rightarrow> (Some err, w1)
      | (Inr _, w1) \<Rightarrow> (None, w1))"

section \<open>main.go: the workflows\<close>

text \<open>
  The loop of \<open>CreateNat\<close> over the routed networks. The event is not changed inside
  the loop, so the loop takes the two values it reads from it.
\<close>

fun CreateNat_loop ::
  "'s ec2 \<Rightarrow> string \<Rightarrow> string \<Rightarrow> string list \<Rightarrow> 's world \<Rightarrow> error option outcome \<times> 's world" where
  "CreateNat_loop svc vpc gwID [] w = (Val None, w)"
| "CreateNat_loop svc vpc gwID (networkID # rest) w =
     (case createRouteTable svc vpc networkID w of
        (Panic, w1) \<Rightarrow> (Panic, w1)
      | (Val (Inl err), w1) \<Rightarrow> (Val (Some err), w1)
      | (Val (Inr rt), w1) \<Rightarrow>
          (case createNatGatewayRoutes svc rt gwID w1 of
             (Some err, w2) \<Rightarrow> (Val (Some err), w2)
           | (None, w2) \<Rightarrow> CreateNat_loop svc vpc gwID rest w2))"

text \<open>
  \<open>CreateNat\<close> writes into the event through its pointer, so the event comes back with
  the error: what was written before a failure stays written.
\<close>

definition CreateNat ::
  "'s deps \<Rightarrow> event \<Rightarrow> 's world \<Rightarrow> (error option \<times> event) outcome \<times> 's world" where
  "CreateNat d ev w =
     (let svc = client d ev in
      case invoke CAllocateAddress (AllocateAddress svc) w of
        (Inl err, w1) \<Rightarrow> (Val (Some err, ev), w1)
      | (Inr resp, w1) \<Rightarrow>
     (case AllocationId resp of
        None \<Rightarrow> (Panic, w1)
      | Some aid \<Rightarrow>
     (case PublicIp resp of
        None \<Rightarrow> (Panic, w1)
      | Some ip \<Rightarrow>
     (let ev2 = ev\<lparr>NatGatewayAllocationID := aid, NatGatewayAllocationIP := ip\<rparr> in
      case createInternetGateway svc (VPCID ev2) w1 of
        (Panic, w2) \<Rightarrow> (Panic, w2)
      | (Val (igw, ierr), w2) \<Rightarrow>
     (let ev3 = ev2\<lparr>InternetGatewayID := igw\<rparr> in
      case ierr of
        Some err \<Rightarrow> (Val (Some err, ev3), w2)
      | None \<Rightarrow>
     (case invoke (CCreateNatGateway (NatGatewayAllocationID ev3) (PublicNetworkAWSID ev3))
             (CreateNatGateway svc (NatGatewayAllocationID ev3) (PublicNetworkAWSID ev3)) w2 of
        (Inl err, w3) \<Rightarrow> (Val (Some err, ev3), w3)
      | (Inr None, w3) \<Rightarrow> (Panic, w3)
      | (Inr (Some gw), w3) \<Rightarrow>
     (case NatGatewayId gw of
        None \<Rightarrow> (Panic, w3)
      | Some gwID \<Rightarrow>
     (let ev4 = ev3\<lparr>NatGatewayAWSID := gwID\<rparr> in
      case invoke (CWaitUntilNatGatewayAvailable (NatGatewayId gw))
             (WaitUntilNatGatewayAvailable svc (NatGatewayId gw)) w3 of
        (Some err, w4) \<Rightarrow> (Val (Some err, ev4), w4)
      | (None, w4) \<Rightarrow>
     (case CreateNat_loop svc (VPCID ev4) gwID (RoutedNetworkAWSIDs ev4) w4 of
        (Panic, w5) \<Rightarrow> (Panic, w5)
      | (Val r, w5) \<Rightarrow> (Val (r, ev4), w5))))))))))"

fun UpdateNat_loop ::
  "'s ec2 \<Rightarrow> string \<Rightarrow> string \<Rightarrow> string list \<Rightarrow> 's world \<Rightarrow> error option outcome \<times> 's world" where
  "UpdateNat_loop svc vpc gwID [] w = (Val None, w)"
| "UpdateNat_loop svc vpc gwID (networkID # rest) w =
     (case createRouteTable svc vpc networkID w of
        (Panic, w1) \<Rightarrow> (Panic, w1)
      | (Val (Inl err), w1) \<Rightarrow> (Val (Some err), w1)
      | (Val (Inr rt), w1) \<Rightarrow>
          (case routeTableIsConfigured rt gwID of
             Panic \<Rightarrow> (Panic, w1)
           | Val True \<Rightarrow> UpdateNat_loop svc vpc gwID rest w1
           | Val False \<Rightarrow>
               (case createNatGatewayRoutes svc rt gwID w1 of
                  (Some err, w2) \<Rightarrow> (Val (Some err), w2)
                | (None, w2) \<Rightarrow> UpdateNat_loop svc vpc gwID rest w2)))"

text \<open>\<open>UpdateNat\<close> and \<open>DeleteNat\<close> only read the event.\<close>

definition UpdateNat :: "'s deps \<Rightarrow> event \<Rightarrow> 's world \<Rightarrow> error option outcome \<times> 's world" where
  "UpdateNat d ev w =
     UpdateNat_loop (client d ev) (VPCID ev) (NatGatewayAWSID ev) (RoutedNetworkAWSIDs ev) w"

text \<open>
  The loop of \<open>DeleteNat\<close> has no bound: it is a partial function, and \<open>None\<close> stands
  for a loop that never ends.
\<close>

partial_function (option) DeleteNat_loop ::
  "'s ec2 \<Rightarrow> string \<Rightarrow> 's world \<Rightarrow> (unit outcome \<times> 's world) option" where
  "DeleteNat_loop svc ident w =
     (case isNatGatewayDeleted svc ident w of
        (Panic, w1) \<Rightarrow> Some (Panic, w1)
      | (Val deleted, w1) \<Rightarrow>
          (if deleted = False then DeleteNat_loop svc ident (time_Sleep 3 w1)
           else Some (Val (), w1)))"

definition DeleteNat ::
  "'s deps \<Rightarrow> event \<Rightarrow> 's world \<Rightarrow> (error option outcome \<times> 's world) option" where
  "DeleteNat d ev w =
     (let svc = client d ev in
      case invoke (CDeleteNatGateway (NatGatewayAWSID ev))
             (DeleteNatGateway svc (NatGatewayAWSID ev)) w of
        (Inl err, w1) \<Rightarrow> Some (Val (Some err), w1)
      | (Inr _, w1) \<Rightarrow>
          (case DeleteNat_loop svc (NatGatewayAWSID ev) w1 of
             None \<Rightarrow> None
           | Some (Panic, w2) \<Rightarrow> Some (Panic, w2)
           | Some (Val _, w2) \<Rightarrow> Some (Val None, w2)))"

section \<open>event.go: decoding and replying\<close>

text \<open>
  \<open>strings.Split\<close> for a separator of one character, which is how the source calls it:
  the pieces between the separators, empty pieces included.
\<close>

fun strings_Split :: "string \<Rightarrow> char \<Rightarrow> string list" where
  "strings_Split [] sep = [[]]"
| "strings_Split (c # cs) sep =
     (if c = sep then [] # strings_Split cs sep
      else (case strings_Split cs sep of
              [] \<Rightarrow> [[c]]
            | p # ps \<Rightarrow> (c # p) # ps))"

text \<open>
  \<open>Event.Process\<close>: indexing the pieces of the subject panics when there is no second
  piece. The decoder fills the exported fields only; \<open>action\<close> is unexported, so it
  keeps the value written just before.
\<close>

definition Process ::
  "'s deps \<Rightarrow> event \<Rightarrow> string \<Rightarrow> string \<Rightarrow> 's world \<Rightarrow> (error option \<times> event) outcome \<times> 's world" where
  "Process d ev subject data w =
     (let parts = strings_Split subject CHR ''.'' in
      if length parts \<le> 1 then (Panic, w)
      else
        (let ev1 = ev\<lparr>action := parts ! 1\<rparr> in
         case json_Unmarshal d data ev1 of
           Inl err \<Rightarrow> (Val (Some err, ev1), nc_Publish (subject @ ''.error'') data w)
         | Inr ev2 \<Rightarrow> (Val (None, ev2\<lparr>action := action ev1\<rparr>), w)))"

text \<open>\<open>Event.Error\<close>: \<open>log.Panic\<close> when the event cannot be encoded.\<close>

definition Error :: "'s deps \<Rightarrow> event \<Rightarrow> error \<Rightarrow> 's world \<Rightarrow> event outcome \<times> 's world" where
  "Error d ev err w =
     (let ev1 = ev\<lparr>ErrorMessage := error_text err\<rparr> in
      case json_Marshal d ev1 of
        Inl _ \<Rightarrow> (Panic, w)
      | Inr data \<Rightarrow> (Val ev1, nc_Publish (''nat.'' @ action ev1 @ ''.aws.error'') data w))"

text \<open>
  \<open>Event.Complete\<close>: after a failed encoding and the call of \<open>Error\<close>, the function
  goes on and publishes the nil payload on the done subject.
\<close>

definition Complete :: "'s deps \<Rightarrow> event \<Rightarrow> 's world \<Rightarrow> event outcome \<times> 's world" where
  "Complete d ev w =
     (case json_Marshal d ev of
        Inl err \<Rightarrow>
          (case Error d ev err w of
             (Panic, w1) \<Rightarrow> (Panic, w1)
           | (Val ev1, w1) \<Rightarrow> (Val ev1, nc_Publish (''nat.'' @ action ev1 @ ''.aws.done'') [] w1))
      | Inr data \<Rightarrow> (Val ev, nc_Publish (''nat.'' @ action ev @ ''.aws.done'') data w))"

section \<open>main.go: the handler\<close>

record msg =
  Subject :: string
  Data :: string

text \<open>
  The switch of \<open>eventHandler\<close> on the second piece of the subject. It has three cases;
  the body of the delete case is a comment, so there, as for any other word, \<open>err\<close>
  stays the nil that \<open>Validate\<close> returned and no workflow runs.
\<close>

definition dispatch ::
  "'s deps \<Rightarrow> string \<Rightarrow> event \<Rightarrow> 's world \<Rightarrow> (error option \<times> event) outcome \<times> 's world" where
  "dispatch d act n w =
     (if act = ''create'' then CreateNat d n w
      else if act = ''update'' then
        (case UpdateNat d n w of
           (Panic, w1) \<Rightarrow> (Panic, w1)
         | (Val err, w1) \<Rightarrow> (Val (err, n), w1))
      else (Val (None, n), w))"

definition eventHandler :: "'s deps \<Rightarrow> msg \<Rightarrow> 's world \<Rightarrow> unit outcome \<times> 's world" where
  "eventHandler d m w =
     (case Process d Event_zero (Subject m) (Data m) w of
        (Panic, w1) \<Rightarrow> (Panic, w1)
      | (Val (Some err, n), w1) \<Rightarrow> (Val (), w1)
      | (Val (None, n), w1) \<Rightarrow>
          (case Validate n (Subject m) of
             Some err \<Rightarrow>
               (case Error d n err w1 of
                  (Panic, w2) \<Rightarrow> (Panic, w2)
                | (Val _, w2) \<Rightarrow> (Val (), w2))
           | None \<Rightarrow>
               (let parts = strings_Split (Subject m) CHR ''.'' in
                if length parts \<le> 1 then (Panic, w1)
                else
                  (case dispatch d (parts ! 1) n w1 of
                     (Panic, w2) \<Rightarrow> (Panic, w2)
                   | (Val (Some err, n2), w2) \<Rightarrow>
                       (case Error d n2 err w2 of
                          (Panic, w3) \<Rightarrow> (Panic, w3)
                        | (Val _, w3) \<Rightarrow> (Val (), w3))
                   | (Val (None, n2), w2) \<Rightarrow>
                       (case Complete d n2 w2 of
                          (Panic, w3) \<Rightarrow> (Panic, w3)
                        | (Val _, w3) \<Rightarrow> (Val (), w3))))))"

section \<open>A small cloud account for concrete runs\<close>

text \<open>
  A client over a counter of describe calls on NAT gateways. The VPC \<open>vpc-1\<close> has an
  internet gateway; the subnet \<open>subnet-a\<close> has a route table that already routes
  \<open>0.0.0.0/0\<close> to \<open>nat-1\<close>; \<open>subnet-b\<close> has a table without that route, and
  creating a route in it fails; any other subnet has no table. A NAT gateway
  reports \<open>deleted\<close> from the third describe call on; \<open>nat-gone\<close> makes the describe
  call fail and \<open>nat-none\<close> makes it return no gateway.
\<close>

definition local_route :: route where
  "local_route = \<lparr>DestinationCidrBlock = Some ''10.0.0.0/16'', RouteNatGatewayId = None\<rparr>"

definition demo_ec2 :: "nat ec2" where
  "demo_ec2 = \<lparr>
     AllocateAddress = (\<lambda>s.
       (Inr \<lparr>AllocationId = Some ''eipalloc-1'', PublicIp = Some ''203.0.113.7''\<rparr>, s)),
     DescribeInternetGateways = (\<lambda>vpc s.
       (Inr (if vpc = ''vpc-1'' then [Some \<lparr>InternetGatewayId = Some ''igw-1''\<rparr>] else []), s)),
     CreateInternetGateway = (\<lambda>s. (Inr (Some \<lparr>InternetGatewayId = Some ''igw-2''\<rparr>), s)),
     AttachInternetGateway = (\<lambda>ig vpc s. (Inr (), s)),
     DescribeRouteTables = (\<lambda>subnet s.
       (Inr (if subnet = ''subnet-a'' then
               [Some \<lparr>RouteTableId = Some ''rtb-a'', Routes = [local_route,
                  \<lparr>DestinationCidrBlock = Some ''0.0.0.0/0'', RouteNatGatewayId = Some ''nat-1''\<rparr>]\<rparr>]
             else if subnet = ''subnet-b'' then
               [Some \<lparr>RouteTableId = Some ''rtb-b'', Routes = [local_route]\<rparr>]
             else []), s)),
     CreateRouteTable = (\<lambda>vpc s.
       (Inr (Some \<lparr>RouteTableId = Some ''rtb-new'', Routes = [local_route]\<rparr>), s)),
     AssociateRouteTable = (\<lambda>rt subnet s. (Inr (), s)),
     CreateRoute = (\<lambda>rt dst gw s.
       (if rt = Some ''rtb-b'' then Inl (ProviderError ''RouteLimitExceeded'') else Inr (), s)),
     CreateNatGateway = (\<lambda>alloc subnet s.
       (Inr (Some \<lparr>NatGatewayId = Some ''nat-1'', State = Some ''pending''\<rparr>), s)),
     WaitUntilNatGatewayAvailable = (\<lambda>g s. (None, s)),
     DeleteNatGateway = (\<lambda>g s. (Inr (), s)),
     DescribeNatGateways = (\<lambda>g s.
       (if g = ''nat-gone'' then Inl (ProviderError ''NatGatewayNotFound'')
        else if g = ''nat-none'' then Inr []
        else Inr [Some \<lparr>NatGatewayId = Some g,
                        State = Some (if s < 2 then ''deleting'' else ''deleted'')\<rparr>], Suc s))\<rparr>"

text \<open>
  A decoder that knows a few payloads and rejects the rest, and an encoder that writes
  four fields of the event.
\<close>

definition demo_Unmarshal :: "string \<Rightarrow> event \<Rightarrow> error + event" where
  "demo_Unmarshal data ev =
     (if data = ''{delete nat-1}'' then
        Inr (ev\<lparr>VPCID := ''vpc-1'', DatacenterRegion := ''us-east-1'', DatacenterAccessKey := ''k'',
                DatacenterAccessToken := ''t'', NatGatewayAWSID := ''nat-1''\<rparr>)
      else if data = ''{create}'' then
        Inr (ev\<lparr>VPCID := ''vpc-1'', DatacenterRegion := ''us-east-1'', DatacenterAccessKey := ''k'',
                DatacenterAccessToken := ''t'', PublicNetworkAWSID := ''subnet-pub'',
                RoutedNetworkAWSIDs := [''subnet-a'', ''subnet-c'']\<rparr>)
      else if data = ''{create no region}'' then
        Inr (ev\<lparr>VPCID := ''vpc-1'', DatacenterAccessKey := ''k'',
                DatacenterAccessToken := ''t'', PublicNetworkAWSID := ''subnet-pub'',
                RoutedNetworkAWSIDs := [''subnet-a'']\<rparr>)
      else Inl (DecodeError ''unexpected end of JSON input''))"

definition demo_Marshal :: "event \<Rightarrow> error + string" where
  "demo_Marshal ev =
     Inr (action ev @ '' '' @ NatGatewayAWSID ev @ '' '' @ InternetGatewayID ev @ '' '' @ ErrorMessage ev)"

definition demo_deps :: "nat deps" where
  "demo_deps = \<lparr>ec2_New = (\<lambda>region key token. demo_ec2),
                 json_Unmarshal = demo_Unmarshal, json_Marshal = demo_Marshal\<rparr>"

definition demo_world :: "nat world" where
  "demo_world = \<lparr>cloud = 0, calls = [], published = []\<rparr>"

definition delete_request :: event where
  "delete_request = Event_zero\<lparr>VPCID := ''vpc-1'', DatacenterRegion := ''us-east-1'',
     DatacenterAccessKey := ''k'', DatacenterAccessToken := ''t''\<rparr>"

definition create_request :: "string list \<Rightarrow> event" where
  "create_request subnets = Event_zero\<lparr>VPCID := ''vpc-1'', DatacenterRegion := ''us-east-1'',
     DatacenterAccessKey := ''k'', DatacenterAccessToken := ''t'',
     PublicNetworkAWSID := ''subnet-pub'', RoutedNetworkAWSIDs := subnets\<rparr>"

definition update_request :: "string list \<Rightarrow> event" where
  "update_request subnets = (create_request subnets)\<lparr>NatGatewayAWSID := ''nat-1''\<rparr>"

section \<open>Notions used to state the properties\<close>

text \<open>
  The request field that each validation error stands for, and the kinds of error of a
  create or update request in the order in which the fields are named.
\<close>

fun missing :: "error \<Rightarrow> event \<Rightarrow> bool" where
  "missing ErrDatacenterIDInvalid ev = (VPCID ev = [])"
| "missing ErrDatacenterRegionInvalid ev = (DatacenterRegion ev = [])"
| "missing ErrDatacenterCredentialsInvalid ev =
     (DatacenterAccessKey ev = [] \<or> DatacenterAccessToken ev = [])"
| "missing ErrNetworkIDInvalid ev = (PublicNetworkAWSID ev = [])"
| "missing ErrRoutedNetworksEmpty ev = (RoutedNetworkAWSIDs ev = [])"
| "missing ErrNatGatewayIDInvalid ev = (NatGatewayAWSID ev = [])"
| "missing _ ev = False"

definition create_update_kinds :: "error list" where
  "create_update_kinds = [ErrDatacenterIDInvalid, ErrDatacenterRegionInvalid,
     ErrDatacenterCredentialsInvalid, ErrNetworkIDInvalid, ErrRoutedNetworksEmpty]"


datatype table_source = Existing "string option" | Fresh "string option"



fun block_calls :: "string \<Rightarrow> string \<Rightarrow> string \<Rightarrow> table_source \<Rightarrow> call list" where
  "block_calls vpc gw subnet (Existing rt) =
     [CDescribeRouteTables subnet, CCreateRoute rt ''0.0.0.0/0'' gw]"
| "block_calls vpc gw subnet (Fresh rt) =
     [CDescribeRouteTables subnet, CCreateRouteTable vpc, CAssociateRouteTable rt subnet,
      CCreateRoute rt ''0.0.0.0/0'' gw]"

text \<open>One block for each subnet that has a source, in the order of the subnets.\<close>

definition route_calls :: "string \<Rightarrow> string \<Rightarrow> string list \<Rightarrow> table_source list \<Rightarrow> call list" where
  "route_calls vpc gw subnets srcs = concat (map2 (block_calls vpc gw) subnets srcs)"

fun igw_creation :: "call \<Rightarrow> bool" where
  "igw_creation CCreateInternetGateway = True"
| "igw_creation (CAttachInternetGateway ig vpc) = True"
| "igw_creation _ = False"

fun route_creation :: "call \<Rightarrow> bool" where
  "route_creation (CCreateRoute rt dst gw) = True"
| "route_creation _ = False"

text \<open>
  A route table is converged for a gateway when one of its routes has the destination
  \<open>0.0.0.0/0\<close> and that gateway as its target; a subnet is converged when, in every
  state of the cloud account, the describe call for it succeeds and the first table it
  returns is converged.
\<close>

definition has_default_route :: "route_table \<Rightarrow> string \<Rightarrow> bool" where
  "has_default_route rt gw \<longleftrightarrow>
     (\<exists>r \<in> set (Routes rt). DestinationCidrBlock r = Some ''0.0.0.0/0'' \<and>
        RouteNatGatewayId r = Some gw)"

definition converged :: "'s ec2 \<Rightarrow> string \<Rightarrow> string \<Rightarrow> bool" where
  "converged svc gw subnet \<longleftrightarrow>
     (\<forall>s. \<exists>rt rts s'. DescribeRouteTables svc subnet s = (Inr (Some rt # rts), s') \<and>
        has_default_route rt gw)"

text \<open>\<open>only_calls P w w'\<close>: from \<open>w\<close> to \<open>w'\<close>, only calls that satisfy \<open>P\<close> were added.\<close>

definition only_calls :: "(call \<Rightarrow> bool) \<Rightarrow> 's world \<Rightarrow> 's world \<Rightarrow> bool" where
  "only_calls P w w' \<longleftrightarrow> (\<exists>cs. calls w' = calls w @ cs \<and> (\<forall>c \<in> set cs. P c))"

section \<open>Evaluating concrete runs\<close>

lemmas demo_defs = demo_deps_def demo_ec2_def demo_Unmarshal_def demo_Marshal_def demo_world_def
  local_route_def

lemmas run_defs = eventHandler_def Process_def Validate_def dispatch_def Complete_def Error_def
  nc_Publish_def CreateNat_def UpdateNat_def client_def invoke_def createInternetGateway_def
  internetGatewayByVPCID_def createRouteTable_def routingTableBySubnetID_def
  createNatGatewayRoutes_def routeTableIsConfigured_def Let_def Event_zero_def

section \<open>What a remote call leaves alone\<close>

lemma invoke_effect:
  "invoke c f w = (r, w1) \<Longrightarrow> published w1 = published w \<and> calls w1 = calls w @ [c]"
  by (auto simp: invoke_def split: prod.splits)

lemma createRouteTable_published:
  "createRouteTable svc vpc s w = (r, w1) \<Longrightarrow> published w1 = published w"
  by (auto simp: createRouteTable_def routingTableBySubnetID_def
      split: prod.splits sum.splits option.splits list.splits dest!: invoke_effect)

lemma createNatGatewayRoutes_published:
  "createNatGatewayRoutes svc rt g w = (r, w1) \<Longrightarrow> published w1 = published w"
  by (auto simp: createNatGatewayRoutes_def split: prod.splits sum.splits dest!: invoke_effect)

lemma CreateNat_loop_published:
  "CreateNat_loop svc vpc g ss w = (r, w1) \<Longrightarrow> published w1 = published w"
proof (induction ss arbitrary: w)
  case Nil
  then show ?case by simp
next
  case (Cons s ss)
  then show ?case
    by (auto split: prod.splits outcome.splits sum.splits option.splits
        dest!: createRouteTable_published createNatGatewayRoutes_published)
qed

lemma UpdateNat_loop_published:
  "UpdateNat_loop svc vpc g ss w = (r, w1) \<Longrightarrow> published w1 = published w"
proof (induction ss arbitrary: w)
  case Nil
  then show ?case by simp
next
  case (Cons s ss)
  then show ?case
    by (auto split: prod.splits outcome.splits sum.splits option.splits bool.splits
        dest!: createRouteTable_published createNatGatewayRoutes_published)
qed

lemma createInternetGateway_published:
  "createInternetGateway svc vpc w = (r, w1) \<Longrightarrow> published w1 = published w"
  by (auto simp: createInternetGateway_def internetGatewayByVPCID_def
      split: prod.splits sum.splits option.splits list.splits dest!: invoke_effect)

lemma CreateNat_published: "CreateNat d ev w = (r, w1) \<Longrightarrow> published w1 = published w"
  by (auto simp: CreateNat_def Let_def
      split: prod.splits sum.splits option.splits outcome.splits
      dest!: invoke_effect createInternetGateway_published CreateNat_loop_published)

lemma CreateNat_action: "CreateNat d ev w = (Val (e, ev'), w1) \<Longrightarrow> action ev' = action ev"
  by (auto simp: CreateNat_def Let_def
      split: prod.splits sum.splits option.splits outcome.splits)

lemma dispatch_published: "dispatch d act n w = (r, w1) \<Longrightarrow> published w1 = published w"
  by (auto simp: dispatch_def UpdateNat_def split: if_splits prod.splits outcome.splits
      dest!: CreateNat_published UpdateNat_loop_published)

lemma dispatch_action: "dispatch d act n w = (Val (e, n2), w1) \<Longrightarrow> action n2 = action n"
  by (auto simp: dispatch_def split: if_splits prod.splits outcome.splits
      dest!: CreateNat_action)

lemma Error_encoded:
  "json_Marshal d (ev\<lparr>ErrorMessage := error_text err\<rparr>) = Inr data \<Longrightarrow>
   Error d ev err w = (Val (ev\<lparr>ErrorMessage := error_text err\<rparr>),
                       nc_Publish (''nat.'' @ action ev @ ''.aws.error'') data w)"
  by (simp add: Error_def Let_def)

lemma Complete_encoded:
  "json_Marshal d ev = Inr data \<Longrightarrow>
   Complete d ev w = (Val ev, nc_Publish (''nat.'' @ action ev @ ''.aws.done'') data w)"
  by (simp add: Complete_def)

lemma Validate_find:
  "subject \<noteq> ''nat.delete.aws'' \<Longrightarrow>
   Validate n subject = List.find (\<lambda>k. missing k n) create_update_kinds"
  by (simp add: Validate_def create_update_kinds_def)

section \<open>Validation\<close>

text \<open>
  C8, as amended. The claim as written fails when an earlier check fires: the zero event
  has an empty NAT gateway ID, and its validation for a delete reports the VPC ID.
\<close>

theorem Validate_delete_empty_event_counterexample:
  "NatGatewayAWSID Event_zero = [] \<and>
   Validate Event_zero ''nat.delete.aws'' = Some ErrDatacenterIDInvalid \<and>
   Validate Event_zero ''nat.delete.aws'' \<noteq> Some ErrNatGatewayIDInvalid"
  by (simp add: Validate_def Event_zero_def)

text \<open>
  C8 (amended): for a delete request whose VPC ID, region and two credential fields are
  not empty, validation returns the NAT-gateway-ID error when \<open>nat_gateway_aws_id\<close> is
  empty and passes otherwise; the public network ID and the routed network IDs play no
  part in the validation of a delete request.
\<close>

theorem Validate_delete_nat_gateway_id:
  assumes "VPCID ev \<noteq> []" and "DatacenterRegion ev \<noteq> []"
    and "DatacenterAccessKey ev \<noteq> []" and "DatacenterAccessToken ev \<noteq> []"
  shows "(NatGatewayAWSID ev = [] \<longrightarrow>
            Validate ev ''nat.delete.aws'' = Some ErrNatGatewayIDInvalid) \<and>
         (NatGatewayAWSID ev \<noteq> [] \<longrightarrow> Validate ev ''nat.delete.aws'' = None) \<and>
         Validate (ev\<lparr>PublicNetworkAWSID := p, RoutedNetworkAWSIDs := r\<rparr>) ''nat.delete.aws''
           = Validate ev ''nat.delete.aws''"
  using assms by (simp add: Validate_def)

theorem Validate_delete_nat_gateway_id_witness:
  "Validate delete_request ''nat.delete.aws'' = Some ErrNatGatewayIDInvalid \<and>
   Validate (delete_request\<lparr>NatGatewayAWSID := ''nat-1''\<rparr>) ''nat.delete.aws'' = None"
  using Validate_delete_nat_gateway_id [of delete_request]
    Validate_delete_nat_gateway_id [of "delete_request\<lparr>NatGatewayAWSID := ''nat-1''\<rparr>"]
  by (simp add: delete_request_def Event_zero_def)

text \<open>
  C10: a delete request is checked for its VPC ID, its region and its credentials, in this
  order and before its NAT gateway ID, whatever that ID is; an empty VPC ID gives the
  VPC-ID error, although \<open>DeleteNat\<close> does not read the VPC ID.
\<close>

theorem Validate_delete_prerequisites:
  "(VPCID ev = [] \<longrightarrow> Validate ev ''nat.delete.aws'' = Some ErrDatacenterIDInvalid) \<and>
   (VPCID ev \<noteq> [] \<and> DatacenterRegion ev = [] \<longrightarrow>
      Validate ev ''nat.delete.aws'' = Some ErrDatacenterRegionInvalid) \<and>
   (VPCID ev \<noteq> [] \<and> DatacenterRegion ev \<noteq> [] \<and>
    (DatacenterAccessKey ev = [] \<or> DatacenterAccessToken ev = []) \<longrightarrow>
      Validate ev ''nat.delete.aws'' = Some ErrDatacenterCredentialsInvalid) \<and>
   DeleteNat d (ev\<lparr>VPCID := v\<rparr>) w = DeleteNat d ev w"
  by (simp add: Validate_def DeleteNat_def client_def Let_def
      cong: prod.case_cong sum.case_cong)

theorem Validate_delete_prerequisites_witness:
  "Validate (delete_request\<lparr>VPCID := [], NatGatewayAWSID := ''nat-1''\<rparr>) ''nat.delete.aws''
     = Some ErrDatacenterIDInvalid \<and>
   Validate (delete_request\<lparr>DatacenterRegion := []\<rparr>) ''nat.delete.aws''
     = Some ErrDatacenterRegionInvalid \<and>
   Validate (delete_request\<lparr>DatacenterAccessToken := []\<rparr>) ''nat.delete.aws''
     = Some ErrDatacenterCredentialsInvalid"
  using Validate_delete_prerequisites
      [of "delete_request\<lparr>VPCID := [], NatGatewayAWSID := ''nat-1''\<rparr>" demo_deps "[]" demo_world]
    Validate_delete_prerequisites
      [of "delete_request\<lparr>DatacenterRegion := []\<rparr>" demo_deps "[]" demo_world]
    Validate_delete_prerequisites
      [of "delete_request\<lparr>DatacenterAccessToken := []\<rparr>" demo_deps "[]" demo_world]
  by (simp add: delete_request_def Event_zero_def)

text \<open>
  C7, as amended. The claim as written pairs each empty field with its own error kind, and
  fails when an earlier check fires: the empty create request has an empty region, and its
  validation reports the VPC ID, not the region.
\<close>

theorem Validate_create_empty_event_counterexample:
  "DatacenterRegion (Event_zero\<lparr>action := ''create''\<rparr>) = [] \<and>
   Validate (Event_zero\<lparr>action := ''create''\<rparr>) ''nat.create.aws''
     = Some ErrDatacenterIDInvalid \<and>
   Validate (Event_zero\<lparr>action := ''create''\<rparr>) ''nat.create.aws''
     \<noteq> Some ErrDatacenterRegionInvalid"
  by (simp add: Validate_def Event_zero_def)

text \<open>
  C7 (amended): for a create or update request, decoded into \<open>n\<close>, in which one of the
  required fields is empty, validation returns the error kind of the first empty field in
  the order VPC ID, region, credentials, public network ID, routed network IDs; the five
  kinds and their texts are distinct; the handler makes no remote call and leaves the
  cloud account as it was; and when the event with its error message can be encoded, the
  handler publishes exactly that payload on the error subject.
\<close>

theorem create_update_validation_failure:
  assumes subj: "Subject m = ''nat.create.aws'' \<or> Subject m = ''nat.update.aws''"
    and dec: "Process d Event_zero (Subject m) (Data m) w = (Val (None, n), w1)"
    and emp: "VPCID n = [] \<or> DatacenterRegion n = [] \<or> DatacenterAccessKey n = [] \<or>
              DatacenterAccessToken n = [] \<or> PublicNetworkAWSID n = [] \<or>
              RoutedNetworkAWSIDs n = []"
  shows "\<exists>err. Validate n (Subject m) = Some err \<and>
           List.find (\<lambda>k. missing k n) create_update_kinds = Some err \<and>
           missing err n \<and> err \<in> set create_update_kinds \<and>
           distinct (map error_text create_update_kinds) \<and>
           calls (snd (eventHandler d m w)) = calls w \<and>
           cloud (snd (eventHandler d m w)) = cloud w \<and>
           (\<forall>data. json_Marshal d (n\<lparr>ErrorMessage := error_text err\<rparr>) = Inr data \<longrightarrow>
              eventHandler d m w =
                (Val (), w\<lparr>published := published w @ [(Subject m @ ''.error'', data)]\<rparr>))"
proof -
  from subj have nd: "Subject m \<noteq> ''nat.delete.aws''" by auto
  have vf: "Validate n (Subject m) = List.find (\<lambda>k. missing k n) create_update_kinds"
    using nd by (rule Validate_find)
  from emp have "List.find (\<lambda>k. missing k n) create_update_kinds \<noteq> None"
    by (auto simp: find_None_iff create_update_kinds_def)
  then obtain err where f: "List.find (\<lambda>k. missing k n) create_update_kinds = Some err"
    by blast
  from f have mis: "missing err n" and mem: "err \<in> set create_update_kinds"
    by (auto simp: find_Some_iff)
  have dist: "distinct (map error_text create_update_kinds)"
    by (simp add: create_update_kinds_def)
  from subj dec have w1: "w1 = w"
    and act: "''nat.'' @ action n @ ''.aws.error'' = Subject m @ ''.error''"
    by (auto simp: Process_def Let_def split: sum.splits)
  have h: "eventHandler d m w =
      (case Error d n err w of (Panic, w2) \<Rightarrow> (Panic, w2) | (Val _, w2) \<Rightarrow> (Val (), w2))"
    using dec vf f w1 by (simp add: eventHandler_def)
  have c: "calls (snd (eventHandler d m w)) = calls w \<and>
           cloud (snd (eventHandler d m w)) = cloud w"
    unfolding h by (simp add: Error_def Let_def nc_Publish_def split: sum.splits)
  have p: "\<forall>data. json_Marshal d (n\<lparr>ErrorMessage := error_text err\<rparr>) = Inr data \<longrightarrow>
              eventHandler d m w =
                (Val (), w\<lparr>published := published w @ [(Subject m @ ''.error'', data)]\<rparr>)"
    unfolding h using act by (simp add: Error_def Let_def nc_Publish_def)
  from vf f mis mem dist c p show ?thesis by simp
qed

theorem create_update_validation_failure_witness:
  "Validate (Event_zero\<lparr>VPCID := ''vpc-1'', DatacenterAccessKey := ''k'',
       DatacenterAccessToken := ''t'', PublicNetworkAWSID := ''subnet-pub'',
       RoutedNetworkAWSIDs := [''subnet-a''], action := ''create''\<rparr>) ''nat.create.aws''
     = Some ErrDatacenterRegionInvalid \<and>
   eventHandler demo_deps \<lparr>Subject = ''nat.create.aws'', Data = ''{create no region}''\<rparr>
       demo_world =
     (Val (), demo_world\<lparr>published :=
        [(''nat.create.aws.error'', ''create   Datacenter Region invalid'')]\<rparr>)"
proof -
  let ?m = "\<lparr>Subject = ''nat.create.aws'', Data = ''{create no region}''\<rparr>"
  let ?n = "Event_zero\<lparr>VPCID := ''vpc-1'', DatacenterAccessKey := ''k'',
       DatacenterAccessToken := ''t'', PublicNetworkAWSID := ''subnet-pub'',
       RoutedNetworkAWSIDs := [''subnet-a''], action := ''create''\<rparr>"
  have subj: "Subject ?m = ''nat.create.aws'' \<or> Subject ?m = ''nat.update.aws''"
    by simp
  have dec: "Process demo_deps Event_zero (Subject ?m) (Data ?m) demo_world =
      (Val (None, ?n), demo_world)"
    by (simp add: Process_def demo_deps_def demo_Unmarshal_def Event_zero_def Let_def)
  have emp: "VPCID ?n = [] \<or> DatacenterRegion ?n = [] \<or> DatacenterAccessKey ?n = [] \<or>
      DatacenterAccessToken ?n = [] \<or> PublicNetworkAWSID ?n = [] \<or>
      RoutedNetworkAWSIDs ?n = []"
    by (simp add: Event_zero_def)
  from create_update_validation_failure [OF subj dec emp] show ?thesis
    by (simp add: Validate_def Event_zero_def demo_deps_def demo_Marshal_def demo_world_def)
qed

section \<open>Lookups\<close>

text \<open>
  C6, as amended. The claim as written fails for the lookup of a NAT gateway: when the
  describe call succeeds and returns no gateway, the lookup returns an error.
\<close>

theorem natGatewayByID_absent_counterexample:
  "DescribeNatGateways demo_ec2 ''nat-none'' (cloud demo_world) = (Inr [], 1) \<and>
   fst (natGatewayByID demo_ec2 ''nat-none'' demo_world) = Inl ErrCouldNotFindNatGateway"
  by (simp add: natGatewayByID_def invoke_def demo_ec2_def demo_world_def)

text \<open>
  C6 (amended): the lookups of an internet gateway by VPC and of a route table by subnet
  return the empty result without an error when the describe call returns an empty list,
  and return an error only when the describe call itself returned that error; the lookup
  of a NAT gateway by ID returns the error "Could not find nat gateway" whenever the
  describe call returns a list that does not hold exactly one gateway.
\<close>

theorem lookups_absence:
  "(DescribeInternetGateways svc vpc (cloud w) = (Inr [], s) \<longrightarrow>
      fst (internetGatewayByVPCID svc vpc w) = Inr None) \<and>
   (fst (internetGatewayByVPCID svc vpc w) = Inl e \<longrightarrow>
      fst (DescribeInternetGateways svc vpc (cloud w)) = Inl e) \<and>
   (DescribeRouteTables svc subnet (cloud w) = (Inr [], s) \<longrightarrow>
      fst (routingTableBySubnetID svc subnet w) = Inr None) \<and>
   (fst (routingTableBySubnetID svc subnet w) = Inl e \<longrightarrow>
      fst (DescribeRouteTables svc subnet (cloud w)) = Inl e) \<and>
   (DescribeNatGateways svc ident (cloud w) = (Inr gws, s) \<and> length gws \<noteq> 1 \<longrightarrow>
      fst (natGatewayByID svc ident w) = Inl ErrCouldNotFindNatGateway)"
  by (auto simp: internetGatewayByVPCID_def routingTableBySubnetID_def natGatewayByID_def
      invoke_def split: prod.splits sum.splits list.splits)

theorem lookups_absence_witness:
  "DescribeInternetGateways demo_ec2 ''vpc-2'' (cloud demo_world) = (Inr [], 0) \<and>
   fst (internetGatewayByVPCID demo_ec2 ''vpc-2'' demo_world) = Inr None \<and>
   DescribeRouteTables demo_ec2 ''subnet-c'' (cloud demo_world) = (Inr [], 0) \<and>
   fst (routingTableBySubnetID demo_ec2 ''subnet-c'' demo_world) = Inr None \<and>
   fst (natGatewayByID demo_ec2 ''nat-none'' demo_world) = Inl ErrCouldNotFindNatGateway"
  using lookups_absence [of demo_ec2 "''vpc-2''" demo_world 0 ErrCouldNotFindNatGateway
      "''subnet-c''" "''nat-none''" "[]"]
    lookups_absence [of demo_ec2 "''vpc-2''" demo_world 1 ErrCouldNotFindNatGateway
      "''subnet-c''" "''nat-none''" "[]"]
  by (simp add: demo_ec2_def demo_world_def)

section \<open>The delete workflow\<close>

text \<open>
  C3 fails on the code. When the describe call of a poll returns an error, the lookup
  returns the nil gateway, and \<open>isNatGatewayDeleted\<close> dereferences it: the poll panics,
  and \<open>DeleteNat\<close> with it, instead of counting the gateway as not yet deleted.
\<close>

theorem DeleteNat_describe_error_panics:
  "isNatGatewayDeleted demo_ec2 ''nat-gone'' demo_world =
     (Panic, demo_world\<lparr>cloud := 1, calls := [CDescribeNatGateways ''nat-gone'']\<rparr>) \<and>
   DeleteNat demo_deps (delete_request\<lparr>NatGatewayAWSID := ''nat-gone''\<rparr>) demo_world =
     Some (Panic, demo_world\<lparr>cloud := 1,
             calls := [CDeleteNatGateway ''nat-gone'', CDescribeNatGateways ''nat-gone'']\<rparr>)"
proof (rule conjI)
  show "isNatGatewayDeleted demo_ec2 ''nat-gone'' demo_world =
     (Panic, demo_world\<lparr>cloud := 1, calls := [CDescribeNatGateways ''nat-gone'']\<rparr>)"
    by (simp add: isNatGatewayDeleted_def natGatewayByID_def invoke_def demo_ec2_def
        demo_world_def)
next
  show "DeleteNat demo_deps (delete_request\<lparr>NatGatewayAWSID := ''nat-gone''\<rparr>) demo_world =
     Some (Panic, demo_world\<lparr>cloud := 1,
             calls := [CDeleteNatGateway ''nat-gone'', CDescribeNatGateways ''nat-gone'']\<rparr>)"
    apply (simp add: DeleteNat_def client_def demo_deps_def invoke_def Let_def
        delete_request_def Event_zero_def)
    apply (subst DeleteNat_loop.simps)
    apply (simp add: isNatGatewayDeleted_def natGatewayByID_def invoke_def demo_ec2_def
        demo_world_def)
    done
qed

text \<open>
  What \<open>DeleteNat\<close> does when it is called: it deletes, then polls every three seconds
  until the gateway is reported deleted, here at the third describe call.
\<close>

lemma demo_poll:
  "isNatGatewayDeleted demo_ec2 ''nat-1'' w =
     (Val (\<not> cloud w < 2),
      w\<lparr>cloud := Suc (cloud w), calls := calls w @ [CDescribeNatGateways ''nat-1'']\<rparr>)"
  by (simp add: isNatGatewayDeleted_def natGatewayByID_def invoke_def demo_ec2_def
      NatGatewayStateDeleted_def)

lemma demo_poll_step:
  "DeleteNat_loop demo_ec2 ''nat-1'' w =
     (if cloud w < 2 then
        DeleteNat_loop demo_ec2 ''nat-1''
          (w\<lparr>cloud := Suc (cloud w),
             calls := calls w @ [CDescribeNatGateways ''nat-1'', CSleep 3]\<rparr>)
      else Some (Val (), w\<lparr>cloud := Suc (cloud w),
                           calls := calls w @ [CDescribeNatGateways ''nat-1'']\<rparr>))"
  by (subst DeleteNat_loop.simps) (simp add: demo_poll time_Sleep_def)

lemma DeleteNat_polls_until_deleted:
  "DeleteNat demo_deps (delete_request\<lparr>NatGatewayAWSID := ''nat-1''\<rparr>) demo_world =
     Some (Val None, \<lparr>cloud = 3,
        calls = [CDeleteNatGateway ''nat-1'', CDescribeNatGateways ''nat-1'', CSleep 3,
                 CDescribeNatGateways ''nat-1'', CSleep 3, CDescribeNatGateways ''nat-1''],
        published = []\<rparr>)"
proof -
  have del: "DeleteNatGateway demo_ec2 ''nat-1'' 0 = (Inr (), 0)"
    by (simp add: demo_ec2_def)
  show ?thesis
    apply (simp add: DeleteNat_def client_def demo_deps_def invoke_def Let_def delete_request_def
        Event_zero_def demo_world_def del)
    apply (subst demo_poll_step, simp)
    apply (subst demo_poll_step, simp)
    apply (subst demo_poll_step, simp add: eval_nat_numeral)
    done
qed

text \<open>
  C1 fails on the code. For a valid message on \<open>nat.delete.aws\<close> the handler publishes
  the done reply without a single remote call: no delete call and no poll.
\<close>

theorem eventHandler_delete_makes_no_call:
  "eventHandler demo_deps \<lparr>Subject = ''nat.delete.aws'', Data = ''{delete nat-1}''\<rparr> demo_world =
     (Val (), \<lparr>cloud = 0, calls = [],
        published = [(''nat.delete.aws.done'', ''delete nat-1  '')]\<rparr>)"
  by (simp add: run_defs demo_defs)

section \<open>Replies\<close>

text \<open>
  C9: for a message on one of the three subjects, with an encoder that does not fail, the
  handler publishes at most one reply in every execution, and exactly one whenever it
  returns: on the error subject with the undecoded payload after a decode failure, on the
  error subject with the encoded event after a validation failure or a workflow failure,
  and on the done subject with the encoded event after a workflow without error. The
  executions that publish nothing are those in which a workflow panics.
\<close>

theorem eventHandler_one_reply:
  assumes subj: "Subject m = ''nat.create.aws'' \<or> Subject m = ''nat.update.aws'' \<or>
                 Subject m = ''nat.delete.aws''"
    and enc: "\<And>ev. \<exists>data. json_Marshal d ev = Inr data"
    and run: "eventHandler d m w = (r, w')"
  shows "(r = Panic \<and> published w' = published w \<or>
          r = Val () \<and>
            (\<exists>data. published w' = published w @ [(Subject m @ ''.error'', data)] \<or>
                    published w' = published w @ [(Subject m @ ''.done'', data)])) \<and>
         (\<forall>err n w1.
            Process d Event_zero (Subject m) (Data m) w = (Val (Some err, n), w1) \<longrightarrow>
            r = Val () \<and> published w' = published w @ [(Subject m @ ''.error'', Data m)]) \<and>
         (\<forall>err n w1.
            Process d Event_zero (Subject m) (Data m) w = (Val (None, n), w1) \<and>
            Validate n (Subject m) = Some err \<longrightarrow>
            r = Val () \<and>
            (\<exists>data. json_Marshal d (n\<lparr>ErrorMessage := error_text err\<rparr>) = Inr data \<and>
               published w' = published w @ [(Subject m @ ''.error'', data)])) \<and>
         (\<forall>err n w1 n2 w2.
            Process d Event_zero (Subject m) (Data m) w = (Val (None, n), w1) \<and>
            Validate n (Subject m) = None \<and>
            dispatch d (action n) n w1 = (Val (Some err, n2), w2) \<longrightarrow>
            r = Val () \<and>
            (\<exists>data. json_Marshal d (n2\<lparr>ErrorMessage := error_text err\<rparr>) = Inr data \<and>
               published w' = published w @ [(Subject m @ ''.error'', data)])) \<and>
         (\<forall>n w1 n2 w2.
            Process d Event_zero (Subject m) (Data m) w = (Val (None, n), w1) \<and>
            Validate n (Subject m) = None \<and>
            dispatch d (action n) n w1 = (Val (None, n2), w2) \<longrightarrow>
            r = Val () \<and>
            (\<exists>data. json_Marshal d n2 = Inr data \<and>
               published w' = published w @ [(Subject m @ ''.done'', data)]))"
proof -
  from subj obtain act where sa: "Subject m = ''nat.'' @ act @ ''.aws''"
    and parts: "strings_Split (Subject m) CHR ''.'' = [''nat'', act, ''aws'']"
    by auto
  have pr: "Process d Event_zero (Subject m) (Data m) w =
     (case json_Unmarshal d (Data m) (Event_zero\<lparr>action := act\<rparr>) of
        Inl err \<Rightarrow> (Val (Some err, Event_zero\<lparr>action := act\<rparr>),
                      nc_Publish (Subject m @ ''.error'') (Data m) w)
      | Inr ev2 \<Rightarrow> (Val (None, ev2\<lparr>action := act\<rparr>), w))"
    using parts by (simp add: Process_def Let_def split: sum.splits)
  show ?thesis
  proof (cases "json_Unmarshal d (Data m) (Event_zero\<lparr>action := act\<rparr>)")
    case (Inl err)
    with pr run show ?thesis
      by (auto simp: eventHandler_def nc_Publish_def)
  next
    case (Inr ev2)
    let ?n = "ev2\<lparr>action := act\<rparr>"
    from Inr pr have p: "Process d Event_zero (Subject m) (Data m) w = (Val (None, ?n), w)"
      by simp
    show ?thesis
    proof (cases "Validate ?n (Subject m)")
      case (Some err)
      from enc obtain data
        where d: "json_Marshal d (?n\<lparr>ErrorMessage := error_text err\<rparr>) = Inr data"
        by blast
      from run p Some Error_encoded [OF d, of w] sa show ?thesis
        by (auto simp: eventHandler_def nc_Publish_def d)
    next
      case None
      obtain x w2 where dp: "dispatch d act ?n w = (x, w2)"
        by (cases "dispatch d act ?n w")
      from dispatch_published [OF dp] have pub: "published w2 = published w" .
      show ?thesis
      proof (cases x)
        case Panic
        with run p None dp parts pub show ?thesis
          by (auto simp: eventHandler_def Let_def)
      next
        case (Val y)
        obtain e n2 where y: "y = (e, n2)" by (cases y)
        from dp Val y dispatch_action have a2: "action n2 = act" by fastforce
        show ?thesis
        proof (cases e)
          case None2: None
          from enc obtain data where d: "json_Marshal d n2 = Inr data" by blast
          from run p None dp parts pub Val y None2 Complete_encoded [OF d, of w2] a2 sa
          show ?thesis
            by (auto simp: eventHandler_def Let_def nc_Publish_def d)
        next
          case (Some err)
          from enc obtain data
            where d: "json_Marshal d (n2\<lparr>ErrorMessage := error_text err\<rparr>) = Inr data"
            by blast
          from run p None dp parts pub Val y Some Error_encoded [OF d, of w2] a2 sa
          show ?thesis
            by (auto simp: eventHandler_def Let_def nc_Publish_def d)
        qed
      qed
    qed
  qed
qed

theorem eventHandler_one_reply_witness:
  "published (snd (eventHandler demo_deps
      \<lparr>Subject = ''nat.create.aws'', Data = ''{create}''\<rparr> demo_world)) =
     [(''nat.create.aws.done'', ''create nat-1 igw-1 '')] \<and>
   published (snd (eventHandler demo_deps
      \<lparr>Subject = ''nat.update.aws'', Data = ''{''\<rparr> demo_world)) =
     [(''nat.update.aws.error'', ''{'')]"
proof -
  let ?m = "\<lparr>Subject = ''nat.create.aws'', Data = ''{create}''\<rparr>"
  let ?k = "\<lparr>Subject = ''nat.update.aws'', Data = ''{''\<rparr>"
  have enc: "\<And>ev. \<exists>data. json_Marshal demo_deps ev = Inr data"
    by (simp add: demo_deps_def demo_Marshal_def)
  have subj: "Subject ?m = ''nat.create.aws'' \<or> Subject ?m = ''nat.update.aws'' \<or>
      Subject ?m = ''nat.delete.aws''"
    by simp
  have run: "eventHandler demo_deps ?m demo_world =
      (fst (eventHandler demo_deps ?m demo_world), snd (eventHandler demo_deps ?m demo_world))"
    by simp
  have subj2: "Subject ?k = ''nat.create.aws'' \<or> Subject ?k = ''nat.update.aws'' \<or>
      Subject ?k = ''nat.delete.aws''"
    by simp
  have run2: "eventHandler demo_deps ?k demo_world =
      (fst (eventHandler demo_deps ?k demo_world), snd (eventHandler demo_deps ?k demo_world))"
    by simp
  have a: "published (snd (eventHandler demo_deps ?m demo_world)) =
      [(''nat.create.aws.done'', ''create nat-1 igw-1 '')]"
    using eventHandler_one_reply [OF subj enc run]
    by (simp add: run_defs demo_defs)
  have b: "published (snd (eventHandler demo_deps ?k demo_world)) =
      [(''nat.update.aws.error'', ''{'')]"
    using eventHandler_one_reply [OF subj2 enc run2]
    by (simp add: run_defs demo_defs)
  from a b show ?thesis by simp
qed

section \<open>The calls of the create workflow\<close>

lemma createRouteTable_calls_ok:
  assumes "createRouteTable svc vpc s w = (Val (Inr rt), w1)"
  shows "calls w1 = calls w @ [CDescribeRouteTables s] \<or>
         calls w1 = calls w @ [CDescribeRouteTables s, CCreateRouteTable vpc,
                               CAssociateRouteTable (RouteTableId rt) s]"
  using assms
  by (auto simp: createRouteTable_def routingTableBySubnetID_def
      split: prod.splits sum.splits option.splits list.splits dest!: invoke_effect)

lemma createRouteTable_calls_stop:
  assumes "createRouteTable svc vpc s w = (x, w1)" and "\<forall>rt. x \<noteq> Val (Inr rt)"
  shows "calls w1 = calls w @ [CDescribeRouteTables s] \<or>
         calls w1 = calls w @ [CDescribeRouteTables s, CCreateRouteTable vpc] \<or>
         (\<exists>i. calls w1 = calls w @ [CDescribeRouteTables s, CCreateRouteTable vpc,
                                  CAssociateRouteTable i s])"
  using assms
  by (auto simp: createRouteTable_def routingTableBySubnetID_def
      split: prod.splits sum.splits option.splits list.splits dest!: invoke_effect)

lemma createRouteTable_partial_block:
  assumes "createRouteTable svc vpc s w = (x, w1)" and "\<forall>rt. x \<noteq> Val (Inr rt)"
  shows "\<exists>p y. calls w1 = calls w @ p \<and> p \<noteq> [] \<and> prefix p (block_calls vpc gw s y)"
proof -
  from createRouteTable_calls_stop [OF assms]
  consider "calls w1 = calls w @ [CDescribeRouteTables s]"
    | "calls w1 = calls w @ [CDescribeRouteTables s, CCreateRouteTable vpc]"
    | i where "calls w1 = calls w @ [CDescribeRouteTables s, CCreateRouteTable vpc,
                                  CAssociateRouteTable i s]"
    by blast
  then show ?thesis
  proof cases
    case 1
    then show ?thesis
      by (intro exI [of _ "[CDescribeRouteTables s]"] exI [of _ "Existing None"]) simp
  next
    case 2
    then show ?thesis
      by (intro exI [of _ "[CDescribeRouteTables s, CCreateRouteTable vpc]"]
          exI [of _ "Fresh None"]) simp
  next
    case 3
    then show ?thesis
      by (intro exI [of _ "[CDescribeRouteTables s, CCreateRouteTable vpc,
            CAssociateRouteTable i s]"] exI [of _ "Fresh i"]) simp
  qed
qed

lemma createRouteTable_block:
  assumes "createRouteTable svc vpc s w = (Val (Inr rt), w1)"
  shows "\<exists>y. calls w1 @ [CCreateRoute (RouteTableId rt) ''0.0.0.0/0'' gw] =
              calls w @ block_calls vpc gw s y"
proof -
  from createRouteTable_calls_ok [OF assms] show ?thesis
  proof
    assume "calls w1 = calls w @ [CDescribeRouteTables s]"
    then show ?thesis by (intro exI [of _ "Existing (RouteTableId rt)"]) simp
  next
    assume "calls w1 = calls w @ [CDescribeRouteTables s, CCreateRouteTable vpc,
                               CAssociateRouteTable (RouteTableId rt) s]"
    then show ?thesis by (intro exI [of _ "Fresh (RouteTableId rt)"]) simp
  qed
qed

lemma createNatGatewayRoutes_calls:
  "createNatGatewayRoutes svc rt gw w = (x, w1) \<Longrightarrow>
   calls w1 = calls w @ [CCreateRoute (RouteTableId rt) ''0.0.0.0/0'' gw]"
  by (auto simp: createNatGatewayRoutes_def split: prod.splits sum.splits dest!: invoke_effect)

lemma route_calls_Nil: "route_calls vpc gw ss [] = []"
  by (simp add: route_calls_def)

lemma route_calls_Cons:
  "route_calls vpc gw (s # ss) (x # xs) = block_calls vpc gw s x @ route_calls vpc gw ss xs"
  by (simp add: route_calls_def)

lemma CreateNat_loop_calls:
  "CreateNat_loop svc vpc gw ss w = (r, w') \<Longrightarrow>
   \<exists>srcs p. calls w' = calls w @ route_calls vpc gw ss srcs @ p \<and>
     (r = Val None \<longrightarrow> length srcs = length ss \<and> p = []) \<and>
     (r \<noteq> Val None \<longrightarrow> length srcs < length ss \<and> p \<noteq> [] \<and>
        (\<exists>x. prefix p (block_calls vpc gw (ss ! length srcs) x)))"
proof (induction ss arbitrary: w)
  case Nil
  then show ?case by (auto simp: route_calls_Nil)
next
  case (Cons s ss)
  obtain x w1 where crt: "createRouteTable svc vpc s w = (x, w1)"
    by (cases "createRouteTable svc vpc s w")
  show ?case
  proof (cases "\<exists>rt. x = Val (Inr rt)")
    case False
    with Cons.prems crt have rn: "r \<noteq> Val None" and w': "w' = w1"
      by (auto split: outcome.splits sum.splits)
    from False createRouteTable_partial_block [OF crt, of gw]
    obtain p y where "calls w1 = calls w @ p" "p \<noteq> []" "prefix p (block_calls vpc gw s y)"
      by blast
    with rn w' show ?thesis
      by (intro exI [of _ "[]"] exI [of _ p]) (auto simp: route_calls_Nil)
  next
    case True
    then obtain rt where x: "x = Val (Inr rt)" by blast
    obtain e w2 where cr: "createNatGatewayRoutes svc rt gw w1 = (e, w2)"
      by (cases "createNatGatewayRoutes svc rt gw w1")
    from createRouteTable_block [OF crt [unfolded x], of gw] createNatGatewayRoutes_calls [OF cr]
    obtain y where blk: "calls w2 = calls w @ block_calls vpc gw s y" by auto
    show ?thesis
    proof (cases e)
      case (Some err)
      with Cons.prems crt x cr have rn: "r \<noteq> Val None" and w': "w' = w2" by auto
      have "block_calls vpc gw s y \<noteq> []" by (cases y) simp_all
      with rn w' blk show ?thesis
        by (intro exI [of _ "[]"] exI [of _ "block_calls vpc gw s y"])
          (auto simp: route_calls_Nil)
    next
      case None
      with Cons.prems crt x cr have rest: "CreateNat_loop svc vpc gw ss w2 = (r, w')" by simp
      from Cons.IH [OF rest] obtain srcs p where
        c: "calls w' = calls w2 @ route_calls vpc gw ss srcs @ p"
        and ok: "r = Val None \<longrightarrow> length srcs = length ss \<and> p = []"
        and stop: "r \<noteq> Val None \<longrightarrow> length srcs < length ss \<and> p \<noteq> [] \<and>
          (\<exists>x. prefix p (block_calls vpc gw (ss ! length srcs) x))"
        by blast
      from c blk ok stop show ?thesis
        by (intro exI [of _ "y # srcs"] exI [of _ p]) (auto simp: route_calls_Cons)
    qed
  qed
qed




section \<open>The create workflow\<close>



section \<open>Reusing the internet gateway\<close>

lemma only_calls_refl: "only_calls P w w"
  by (simp add: only_calls_def)

lemma only_calls_trans: "only_calls P w w1 \<Longrightarrow> only_calls P w1 w2 \<Longrightarrow> only_calls P w w2"
  by (auto simp: only_calls_def)

lemma invoke_only: "invoke c f w = (r, w1) \<Longrightarrow> P c \<Longrightarrow> only_calls P w w1"
  by (auto simp: only_calls_def dest!: invoke_effect)

lemma block_calls_no_igw: "c \<in> set (block_calls vpc gw s x) \<Longrightarrow> \<not> igw_creation c"
  by (cases x) auto

lemma route_calls_no_igw: "c \<in> set (route_calls vpc gw ss srcs) \<Longrightarrow> \<not> igw_creation c"
  by (auto simp: route_calls_def dest: block_calls_no_igw)

lemma CreateNat_loop_no_igw:
  assumes "CreateNat_loop svc vpc gw ss w = (r, w')"
  shows "only_calls (\<lambda>c. \<not> igw_creation c) w w'"
proof -
  from CreateNat_loop_calls [OF assms] obtain srcs p where
    c: "calls w' = calls w @ route_calls vpc gw ss srcs @ p"
    and ok: "r = Val None \<longrightarrow> length srcs = length ss \<and> p = []"
    and stop: "r \<noteq> Val None \<longrightarrow> length srcs < length ss \<and> p \<noteq> [] \<and>
      (\<exists>x. prefix p (block_calls vpc gw (ss ! length srcs) x))"
    by blast
  from ok stop have p: "p = [] \<or> (\<exists>x. prefix p (block_calls vpc gw (ss ! length srcs) x))"
    by blast
  from p have "\<forall>c \<in> set p. \<not> igw_creation c"
    by (auto dest: set_mono_prefix block_calls_no_igw)
  with c show ?thesis
    by (auto simp: only_calls_def dest: route_calls_no_igw)
qed

lemma createInternetGateway_found:
  assumes "fst (internetGatewayByVPCID svc vpc w) = Inr (Some ig)"
    and "createInternetGateway svc vpc w = (x, w1)"
  shows "only_calls (\<lambda>c. \<not> igw_creation c) w w1 \<and>
         x = (case InternetGatewayId ig of None \<Rightarrow> Panic | Some i \<Rightarrow> Val (i, None))"
  using assms
  by (auto simp: createInternetGateway_def internetGatewayByVPCID_def only_calls_def
      split: prod.splits sum.splits option.splits list.splits dest!: invoke_effect)

lemma createInternetGateway_creates:
  assumes "createInternetGateway svc vpc w = (x, w1)"
    and "\<not> only_calls (\<lambda>c. \<not> igw_creation c) w w1"
  shows "fst (internetGatewayByVPCID svc vpc w) = Inr None"
  using assms
  by (auto simp: createInternetGateway_def internetGatewayByVPCID_def only_calls_def
      split: prod.splits sum.splits option.splits list.splits dest!: invoke_effect)

lemma CreateNat_after_gateway:
  assumes run: "CreateNat d ev w = (r, w')"
    and alloc: "AllocateAddress (client d ev) (cloud w) = (Inr a, s1)"
      "AllocationId a = Some aid" "PublicIp a = Some ip"
    and ci: "createInternetGateway (client d ev) (VPCID ev)
               (w\<lparr>cloud := s1, calls := calls w @ [CAllocateAddress]\<rparr>) = (x, w2)"
  shows "only_calls (\<lambda>c. \<not> igw_creation c) w2 w' \<and>
         (\<forall>e ev'. r = Val (e, ev') \<longrightarrow> (\<exists>ierr. x = Val (InternetGatewayID ev', ierr)))"
  using run alloc ci
  by (auto simp: CreateNat_def Let_def invoke_def only_calls_def
      split: prod.splits sum.splits option.splits outcome.splits
      dest!: CreateNat_loop_no_igw [unfolded only_calls_def])

text \<open>
  C5: let the address allocation of \<open>CreateNat\<close> succeed. When the lookup of the
  internet gateway of the VPC then returns a gateway, \<open>CreateNat\<close> makes no call that
  creates or attaches an internet gateway, and the event it returns carries the ID of the
  gateway found. Whenever \<open>CreateNat\<close> makes such a call, the lookup returned the empty
  result.
\<close>

theorem CreateNat_reuses_internet_gateway:
  assumes run: "CreateNat d ev w = (r, w')"
    and alloc: "AllocateAddress (client d ev) (cloud w) = (Inr a, s1)"
      "AllocationId a = Some aid" "PublicIp a = Some ip"
  shows "(\<forall>ig. fst (internetGatewayByVPCID (client d ev) (VPCID ev)
                   (w\<lparr>cloud := s1, calls := calls w @ [CAllocateAddress]\<rparr>)) = Inr (Some ig) \<longrightarrow>
            only_calls (\<lambda>c. \<not> igw_creation c) w w' \<and>
            (\<forall>e ev'. r = Val (e, ev') \<longrightarrow> InternetGatewayId ig = Some (InternetGatewayID ev'))) \<and>
         (\<not> only_calls (\<lambda>c. \<not> igw_creation c) w w' \<longrightarrow>
            fst (internetGatewayByVPCID (client d ev) (VPCID ev)
                   (w\<lparr>cloud := s1, calls := calls w @ [CAllocateAddress]\<rparr>)) = Inr None)"
proof -
  let ?w1 = "w\<lparr>cloud := s1, calls := calls w @ [CAllocateAddress]\<rparr>"
  obtain x w2 where ci: "createInternetGateway (client d ev) (VPCID ev) ?w1 = (x, w2)"
    by (cases "createInternetGateway (client d ev) (VPCID ev) ?w1")
  have first: "only_calls (\<lambda>c. \<not> igw_creation c) w ?w1"
    by (simp add: only_calls_def)
  from CreateNat_after_gateway [OF run alloc ci]
  have rest: "only_calls (\<lambda>c. \<not> igw_creation c) w2 w'"
    and rec: "\<forall>e ev'. r = Val (e, ev') \<longrightarrow> (\<exists>ierr. x = Val (InternetGatewayID ev', ierr))"
    by blast+
  have reuse: "only_calls (\<lambda>c. \<not> igw_creation c) w w' \<and>
      (\<forall>e ev'. r = Val (e, ev') \<longrightarrow> InternetGatewayId ig = Some (InternetGatewayID ev'))"
    if "fst (internetGatewayByVPCID (client d ev) (VPCID ev) ?w1) = Inr (Some ig)" for ig
  proof -
    from createInternetGateway_found [OF that ci]
    have mid: "only_calls (\<lambda>c. \<not> igw_creation c) ?w1 w2"
      and x: "x = (case InternetGatewayId ig of None \<Rightarrow> Panic | Some i \<Rightarrow> Val (i, None))"
      by blast+
    from first mid rest have "only_calls (\<lambda>c. \<not> igw_creation c) w w'"
      by (blast intro: only_calls_trans)
    moreover from rec x
    have "\<forall>e ev'. r = Val (e, ev') \<longrightarrow> InternetGatewayId ig = Some (InternetGatewayID ev')"
      by (auto split: option.splits)
    ultimately show ?thesis by blast
  qed
  have created: "fst (internetGatewayByVPCID (client d ev) (VPCID ev) ?w1) = Inr None"
    if "\<not> only_calls (\<lambda>c. \<not> igw_creation c) w w'"
  proof -
    from that first rest have "\<not> only_calls (\<lambda>c. \<not> igw_creation c) ?w1 w2"
      by (blast intro: only_calls_trans)
    with ci show ?thesis by (rule createInternetGateway_creates)
  qed
  from reuse created show ?thesis by blast
qed

theorem CreateNat_reuses_internet_gateway_witness:
  "fst (internetGatewayByVPCID demo_ec2 ''vpc-1''
          (demo_world\<lparr>cloud := 0, calls := calls demo_world @ [CAllocateAddress]\<rparr>)) =
     Inr (Some \<lparr>InternetGatewayId = Some ''igw-1''\<rparr>) \<and>
   only_calls (\<lambda>c. \<not> igw_creation c) demo_world
     (snd (CreateNat demo_deps (create_request [''subnet-a'']) demo_world)) \<and>
   fst (CreateNat demo_deps (create_request [''subnet-a'']) demo_world) =
     Val (None, create_request [''subnet-a'']
            \<lparr>NatGatewayAWSID := ''nat-1'', NatGatewayAllocationID := ''eipalloc-1'',
             NatGatewayAllocationIP := ''203.0.113.7'', InternetGatewayID := ''igw-1''\<rparr>) \<and>
   calls (snd (CreateNat demo_deps (create_request [''subnet-a'']\<lparr>VPCID := ''vpc-2''\<rparr>) demo_world)) =
     [CAllocateAddress, CDescribeInternetGateways ''vpc-2'', CCreateInternetGateway,
      CAttachInternetGateway (Some ''igw-2'') ''vpc-2'',
      CCreateNatGateway ''eipalloc-1'' ''subnet-pub'',
      CWaitUntilNatGatewayAvailable (Some ''nat-1''),
      CDescribeRouteTables ''subnet-a'', CCreateRoute (Some ''rtb-a'') ''0.0.0.0/0'' ''nat-1''] \<and>
   fst (internetGatewayByVPCID demo_ec2 ''vpc-2''
          (demo_world\<lparr>cloud := 0, calls := calls demo_world @ [CAllocateAddress]\<rparr>)) = Inr None"
proof -
  let ?ev = "create_request [''subnet-a'']"
  let ?ev2 = "create_request [''subnet-a'']\<lparr>VPCID := ''vpc-2''\<rparr>"
  let ?a = "\<lparr>AllocationId = Some ''eipalloc-1'', PublicIp = Some ''203.0.113.7''\<rparr>"
  have run: "CreateNat demo_deps ?ev demo_world =
      (fst (CreateNat demo_deps ?ev demo_world), snd (CreateNat demo_deps ?ev demo_world))"
    by simp
  have run2: "CreateNat demo_deps ?ev2 demo_world =
      (fst (CreateNat demo_deps ?ev2 demo_world), snd (CreateNat demo_deps ?ev2 demo_world))"
    by simp
  have al: "AllocateAddress (client demo_deps ?ev) (cloud demo_world) = (Inr ?a, 0)"
    by (simp add: client_def demo_defs)
  have al2: "AllocateAddress (client demo_deps ?ev2) (cloud demo_world) = (Inr ?a, 0)"
    by (simp add: client_def demo_defs)
  have i1: "AllocationId ?a = Some ''eipalloc-1''" and i2: "PublicIp ?a = Some ''203.0.113.7''"
    by simp_all
  have look: "fst (internetGatewayByVPCID (client demo_deps ?ev) (VPCID ?ev)
      (demo_world\<lparr>cloud := 0, calls := calls demo_world @ [CAllocateAddress]\<rparr>)) =
      Inr (Some \<lparr>InternetGatewayId = Some ''igw-1''\<rparr>)"
    by (simp add: run_defs demo_defs create_request_def)
  have made: "\<not> only_calls (\<lambda>c. \<not> igw_creation c) demo_world
      (snd (CreateNat demo_deps ?ev2 demo_world))"
    by (simp add: only_calls_def run_defs demo_defs create_request_def)
  from CreateNat_reuses_internet_gateway [OF run al i1 i2] look
  have a: "only_calls (\<lambda>c. \<not> igw_creation c) demo_world
      (snd (CreateNat demo_deps ?ev demo_world))"
    by blast
  from CreateNat_reuses_internet_gateway [OF run2 al2 i1 i2] made
  have b: "fst (internetGatewayByVPCID (client demo_deps ?ev2) (VPCID ?ev2)
      (demo_world\<lparr>cloud := 0, calls := calls demo_world @ [CAllocateAddress]\<rparr>)) = Inr None"
    by blast
  have c: "client demo_deps ?ev = demo_ec2" "client demo_deps ?ev2 = demo_ec2"
    "VPCID ?ev = ''vpc-1''" "VPCID ?ev2 = ''vpc-2''"
    by (simp_all add: client_def demo_deps_def create_request_def Event_zero_def)
  from a b look show ?thesis
    unfolding c by (simp add: run_defs demo_defs create_request_def)
qed

section \<open>The update workflow\<close>

lemma configured_loop_match:
  "\<exists>r \<in> set rs. DestinationCidrBlock r = Some ''0.0.0.0/0'' \<and> RouteNatGatewayId r = Some gw \<Longrightarrow>
   routeTableIsConfigured_loop rs gw \<noteq> Val False"
  by (induction rs) (auto split: option.splits)

lemma configured_loop_sound:
  "routeTableIsConfigured_loop rs gw = Val True \<Longrightarrow>
   \<exists>r \<in> set rs. DestinationCidrBlock r = Some ''0.0.0.0/0'' \<and> RouteNatGatewayId r = Some gw"
  by (induction rs) (auto split: option.splits if_splits)

lemma routeTableIsConfigured_match:
  "has_default_route rt gw \<Longrightarrow>
   routeTableIsConfigured rt gw = Val True \<or> routeTableIsConfigured rt gw = Panic"
proof -
  assume "has_default_route rt gw"
  then have "routeTableIsConfigured_loop (Routes rt) gw \<noteq> Val False"
    unfolding has_default_route_def by (rule configured_loop_match)
  then show ?thesis
    unfolding routeTableIsConfigured_def
    by (cases "routeTableIsConfigured_loop (Routes rt) gw") auto
qed

lemma routeTableIsConfigured_sound:
  "routeTableIsConfigured rt gw = Val True \<Longrightarrow> has_default_route rt gw"
  unfolding routeTableIsConfigured_def has_default_route_def by (rule configured_loop_sound)

lemma createRouteTable_converged:
  assumes "converged svc gw s"
  shows "\<exists>rt w1. createRouteTable svc vpc s w = (Val (Inr rt), w1) \<and> has_default_route rt gw \<and>
           calls w1 = calls w @ [CDescribeRouteTables s]"
proof -
  from assms obtain rt rts s' where
    d: "DescribeRouteTables svc s (cloud w) = (Inr (Some rt # rts), s')"
    and h: "has_default_route rt gw"
    unfolding converged_def by blast
  from d have "createRouteTable svc vpc s w =
      (Val (Inr rt), w\<lparr>cloud := s', calls := calls w @ [CDescribeRouteTables s]\<rparr>)"
    by (simp add: createRouteTable_def routingTableBySubnetID_def invoke_def)
  with h show ?thesis by simp
qed

lemma UpdateNat_loop_converged:
  assumes "\<forall>s \<in> set ss. converged svc gw s"
    and "UpdateNat_loop svc vpc gw ss w = (r, w')"
  shows "r = Val None \<and> calls w' = calls w @ map CDescribeRouteTables ss \<or>
         r = Panic \<and> (\<exists>k. calls w' = calls w @ map CDescribeRouteTables (take k ss))"
  using assms
proof (induction ss arbitrary: w)
  case Nil
  then show ?case by simp
next
  case (Cons s ss)
  from Cons.prems(1) have cs: "converged svc gw s" and rest: "\<forall>s \<in> set ss. converged svc gw s"
    by simp_all
  from createRouteTable_converged [OF cs, of vpc w] obtain rt w1 where
    crt: "createRouteTable svc vpc s w = (Val (Inr rt), w1)"
    and h: "has_default_route rt gw"
    and c1: "calls w1 = calls w @ [CDescribeRouteTables s]"
    by blast
  from routeTableIsConfigured_match [OF h] show ?case
  proof
    assume t: "routeTableIsConfigured rt gw = Val True"
    with Cons.prems(2) crt have "UpdateNat_loop svc vpc gw ss w1 = (r, w')" by simp
    from Cons.IH [OF rest this] show ?thesis
    proof (elim disjE conjE exE)
      assume "r = Val None" "calls w' = calls w1 @ map CDescribeRouteTables ss"
      with c1 show ?thesis by simp
    next
      fix k
      assume "r = Panic" "calls w' = calls w1 @ map CDescribeRouteTables (take k ss)"
      with c1 have "r = Panic \<and> calls w' = calls w @ map CDescribeRouteTables (take (Suc k) (s # ss))"
        by simp
      then show ?thesis by blast
    qed
  next
    assume p: "routeTableIsConfigured rt gw = Panic"
    with Cons.prems(2) crt have "r = Panic" and "w' = w1" by simp_all
    with c1 have "r = Panic \<and> calls w' = calls w @ map CDescribeRouteTables (take 1 (s # ss))"
      by simp
    then show ?thesis by blast
  qed
qed

text \<open>
  C4: when every routed subnet of an update request is converged for the NAT gateway of
  the request, \<open>UpdateNat\<close> makes no call that creates a route. It makes one describe
  call for each subnet, in order, and returns without error, unless the scan of a table
  panics on a route without a destination block or without a NAT gateway, after which no
  call is made at all. The scan reports a table as configured only if one of its routes
  has the destination \<open>0.0.0.0/0\<close> and the gateway of the request as its target.
\<close>

theorem UpdateNat_converged_no_route_creation:
  assumes conv: "\<forall>subnet \<in> set (RoutedNetworkAWSIDs ev).
      converged (client d ev) (NatGatewayAWSID ev) subnet"
    and run: "UpdateNat d ev w = (r, w')"
  shows "only_calls (\<lambda>c. \<not> route_creation c) w w' \<and>
         (r = Val None \<and> calls w' = calls w @ map CDescribeRouteTables (RoutedNetworkAWSIDs ev) \<or>
          r = Panic \<and>
            (\<exists>k. calls w' = calls w @ map CDescribeRouteTables (take k (RoutedNetworkAWSIDs ev)))) \<and>
         (\<forall>rt. routeTableIsConfigured rt (NatGatewayAWSID ev) = Val True \<longrightarrow>
            has_default_route rt (NatGatewayAWSID ev))"
proof -
  from run have lp: "UpdateNat_loop (client d ev) (VPCID ev) (NatGatewayAWSID ev)
      (RoutedNetworkAWSIDs ev) w = (r, w')"
    by (simp add: UpdateNat_def)
  from UpdateNat_loop_converged [OF conv lp]
  have shape: "r = Val None \<and> calls w' = calls w @ map CDescribeRouteTables (RoutedNetworkAWSIDs ev) \<or>
      r = Panic \<and>
        (\<exists>k. calls w' = calls w @ map CDescribeRouteTables (take k (RoutedNetworkAWSIDs ev)))" .
  then have "\<exists>k. calls w' = calls w @ map CDescribeRouteTables (take k (RoutedNetworkAWSIDs ev))"
  proof
    assume "r = Val None \<and> calls w' = calls w @ map CDescribeRouteTables (RoutedNetworkAWSIDs ev)"
    then have "calls w' = calls w @ map CDescribeRouteTables
        (take (length (RoutedNetworkAWSIDs ev)) (RoutedNetworkAWSIDs ev))" by simp
    then show ?thesis by blast
  next
    assume "r = Panic \<and>
        (\<exists>k. calls w' = calls w @ map CDescribeRouteTables (take k (RoutedNetworkAWSIDs ev)))"
    then show ?thesis by blast
  qed
  then have "only_calls (\<lambda>c. \<not> route_creation c) w w'"
    by (auto simp: only_calls_def)
  with shape show ?thesis
    by (blast intro: routeTableIsConfigured_sound)
qed

theorem UpdateNat_converged_no_route_creation_witness:
  "converged demo_ec2 ''nat-1'' ''subnet-a'' \<and>
   UpdateNat demo_deps (update_request [''subnet-a'', ''subnet-a'']) demo_world =
     (Val None, demo_world\<lparr>calls :=
        [CDescribeRouteTables ''subnet-a'', CDescribeRouteTables ''subnet-a'']\<rparr>) \<and>
   only_calls (\<lambda>c. \<not> route_creation c) demo_world
     (snd (UpdateNat demo_deps (update_request [''subnet-a'', ''subnet-a'']) demo_world))"
proof -
  let ?ev = "update_request [''subnet-a'', ''subnet-a'']"
  have cv: "converged demo_ec2 ''nat-1'' ''subnet-a''"
    by (simp add: converged_def has_default_route_def demo_defs)
  have f: "client demo_deps ?ev = demo_ec2" "NatGatewayAWSID ?ev = ''nat-1''"
    "RoutedNetworkAWSIDs ?ev = [''subnet-a'', ''subnet-a'']"
    by (simp_all add: client_def demo_deps_def update_request_def create_request_def Event_zero_def)
  have conv: "\<forall>subnet \<in> set (RoutedNetworkAWSIDs ?ev).
      converged (client demo_deps ?ev) (NatGatewayAWSID ?ev) subnet"
    unfolding f using cv by simp
  have run: "UpdateNat demo_deps ?ev demo_world =
      (fst (UpdateNat demo_deps ?ev demo_world), snd (UpdateNat demo_deps ?ev demo_world))"
    by simp
  from UpdateNat_converged_no_route_creation [OF conv run]
  have a: "only_calls (\<lambda>c. \<not> route_creation c) demo_world
      (snd (UpdateNat demo_deps ?ev demo_world))"
    by blast
  have b: "UpdateNat demo_deps ?ev demo_world =
     (Val None, demo_world\<lparr>calls :=
        [CDescribeRouteTables ''subnet-a'', CDescribeRouteTables ''subnet-a'']\<rparr>)"
    by (simp add: run_defs demo_defs update_request_def create_request_def)
  from cv a b show ?thesis by simp
qed

end
